theory Spec2Isabelle
  imports Main
begin

section \<open>Values of the notebook\<close>

text \<open>
  The notebook formats values into text with f-strings. A value read from the CSV file or
  returned by a service is a string, an integer, a float, a boolean or a missing value.
  Floating point arithmetic is not modelled: a float is carried as the text that \<open>str\<close>
  gives for it, so the missing value \<open>NaN\<close> of pandas is \<open>PyFloat ''nan''\<close>.
\<close>

datatype py_value = PyNone | PyStr string | PyInt int | PyFloat string | PyBool bool

definition digit_char :: "nat \<Rightarrow> char" where
  "digit_char d = char_of (48 + d)"

fun str_nat :: "nat \<Rightarrow> string" where
  "str_nat n = (if n < 10 then [digit_char n] else str_nat (n div 10) @ [digit_char (n mod 10)])"

definition str_int :: "int \<Rightarrow> string" where
  "str_int i = (if i < 0 then CHR ''-'' # str_nat (nat (- i)) else str_nat (nat i))"

text \<open>\<open>py_format v\<close> is the text a replacement field \<open>{v}\<close> of an f-string produces.\<close>

fun py_format :: "py_value \<Rightarrow> string" where
  "py_format PyNone = ''None''"
| "py_format (PyStr s) = s"
| "py_format (PyInt i) = str_int i"
| "py_format (PyFloat t) = t"
| "py_format (PyBool b) = (if b then ''True'' else ''False'')"

section \<open>Ingestion: from the CSV file to the rows inserted into MySQL\<close>

text \<open>
  A row of the data frame read from \<open>Reviews_small.csv\<close>. The columns are those of the
  \<open>INSERT\<close> statement, in its order. The identifier column is \<open>Id\<close> in the source.
\<close>

record review =
  Id_row :: py_value
  ProductId :: py_value
  UserId :: py_value
  ProfileName :: py_value
  HelpfulnessNumerator :: py_value
  HelpfulnessDenominator :: py_value
  Score :: py_value
  Time :: py_value
  Summary :: py_value
  Text :: py_value


subsection \<open>The dtypes of the data frame\<close>



















section \<open>Answering a query: retrieval, then generation\<close>

text \<open>The values the notebook loads from \<open>example.env\<close> and uses in its two query cells.\<close>

record config =
  service_endpoint :: string
  index_name :: string
  azureai_search_key :: string
  openai_deployment_embedding :: string
  openai_deployment_completion :: string

text \<open>
  \<^verbatim>\<open>VectorizableTextQuery(text=user_query, k_nearest_neighbors=3, fields="vector", exhaustive=True)\<close>
\<close>

record vectorizable_text_query =
  text_vq :: string
  k_nearest_neighbors :: nat
  fields_vq :: string
  exhaustive :: bool

definition vector_query :: "string \<Rightarrow> vectorizable_text_query" where
  "vector_query user_query =
     \<lparr>text_vq = user_query, k_nearest_neighbors = 3, fields_vq = ''vector'', exhaustive = True\<rparr>"

text \<open>The keyword arguments of \<open>search_client.search\<close>.\<close>

record search_request =
  search_text :: string
  vector_queries :: "vectorizable_text_query list"
  select :: "string list"
  query_type :: string
  semantic_configuration_name :: string
  top_arg :: nat

definition query_request :: "string \<Rightarrow> search_request" where
  "query_request user_query =
     \<lparr>search_text = user_query,
      vector_queries = [vector_query user_query],
      select = [''Id'', ''parent_id'', ''chunk'', ''parent_product_id'', ''parent_text'',
                ''parent_summary'', ''parent_score''],
      query_type = ''semantic'',
      semantic_configuration_name = ''my-semantic-config'',
      top_arg = 5\<rparr>"

text \<open>
  One hit of the search: the dictionary the client returns, with the two keys
  \<open>@search.score\<close> and \<open>@search.reranker_score\<close> and the selected fields that the loop
  reads. The key of the chunk is \<open>Id\<close> in the source.
\<close>

record search_result =
  search_score :: py_value
  search_reranker_score :: py_value
  parent_id :: py_value
  Id_chunk :: py_value
  parent_product_id :: py_value
  chunk :: py_value
  parent_summary :: py_value
  parent_text :: py_value
  parent_score :: py_value

text \<open>The body of the loop \<open>for result in results\<close>: the nine lines it prints for one hit.\<close>

definition print_result :: "search_result \<Rightarrow> string list" where
  "print_result result =
     [''Search score: '' @ py_format (search_score result),
      ''Search re-ranker score: '' @ py_format (search_reranker_score result),
      ''Parent Id: '' @ py_format (parent_id result) @ '' | Chunk id: '' @ py_format (Id_chunk result),
      ''Product Id: '' @ py_format (parent_product_id result),
      ''Text chunk: '' @ py_format (chunk result),
      ''Review summary: '' @ py_format (parent_summary result),
      ''Review text: '' @ py_format (parent_text result),
      ''Review score: '' @ py_format (parent_score result),
      ''-----'']"

text \<open>
  The cell "Perform queries". The search service is a parameter: \<open>search request\<close> is
  either the exception the client raises (\<open>Inl\<close>) or the hits in the order the service
  returns them. The cell has no \<open>try\<close>, no test on the hits and no \<open>raise\<close>: an exception
  of the client leaves the cell as it is, and otherwise the cell prints the lines of every
  hit. The result is the exception, or the printed lines.
\<close>

definition perform_queries :: "(search_request \<Rightarrow> 'e + search_result list) \<Rightarrow> string \<Rightarrow> 'e + string list" where
  "perform_queries search user_query =
     (case search (query_request user_query) of
        Inl e \<Rightarrow> Inl e
      | Inr results \<Rightarrow> Inr (concat (map print_result results)))"

definition system_prompt :: string where
  "system_prompt =
     [CHR 0x0A] @ ''    You are an AI assistant that recommends product to people based on the product reviews data matching their query. ''
     @ [CHR 0x0A] @ ''    Your answer should summarize the review text, include the product ID, include the parent id as review id, and mention the overall sentiment of the review.''
     @ [CHR 0x0A] @ ''    ''"

text \<open>The entry of \<open>dataSources\<close> in \<open>extra_body\<close>.\<close>

record data_source_parameters =
  endpoint :: string
  indexName :: string
  semanticConfiguration :: string
  queryType :: string
  inScope :: bool
  roleInformation :: string
  strictness :: nat
  topNDocuments :: nat
  key_arg :: string
  embeddingDeploymentName :: string

record data_source =
  type_arg :: string
  parameters :: data_source_parameters

text \<open>
  The arguments of \<open>client.chat.completions.create\<close>; a message is a pair of role and
  content; \<open>n_arg\<close> is the argument \<open>n\<close>.
\<close>

record completion_request =
  messages :: "(string \<times> string) list"
  model_arg :: string
  dataSources :: "data_source list"
  n_arg :: nat
  temperature :: nat
  top_p :: nat
  max_tokens :: nat

definition message_text :: "string \<Rightarrow> (string \<times> string) list" where
  "message_text user_query = [(''user'', user_query)]"

definition chat_request :: "config \<Rightarrow> string \<Rightarrow> completion_request" where
  "chat_request cfg user_query =
     \<lparr>messages = message_text user_query,
      model_arg = openai_deployment_completion cfg,
      dataSources =
        [\<lparr>type_arg = ''AzureCognitiveSearch'',
          parameters =
            \<lparr>endpoint = service_endpoint cfg,
             indexName = index_name cfg,
             semanticConfiguration = ''my-semantic-config'',
             queryType = ''vectorSemanticHybrid'',
             inScope = True,
             roleInformation = system_prompt,
             strictness = 3,
             topNDocuments = 5,
             key_arg = azureai_search_key cfg,
             embeddingDeploymentName = openai_deployment_embedding cfg\<rparr>\<rparr>],
      n_arg = 3,
      temperature = 1,
      top_p = 1,
      max_tokens = 1024\<rparr>"

text \<open>
  The cell "Call to OpenAI". The completion service is a parameter: \<open>create request\<close> is
  the exception the client raises or the completion object, and \<open>model_dump_json\<close> turns
  a completion into the text that is printed. The call is not inside a \<open>try\<close>. The
  request does not use the hits printed by the cell before: the service queries the index
  itself, through \<open>dataSources\<close>.
\<close>

definition generate_response ::
    "(completion_request \<Rightarrow> 'e + 'c) \<Rightarrow> ('c \<Rightarrow> string) \<Rightarrow> config \<Rightarrow> string \<Rightarrow> 'e + string list" where
  "generate_response create model_dump_json cfg user_query =
     (case create (chat_request cfg user_query) of
        Inl e \<Rightarrow> Inl e
      | Inr completion \<Rightarrow> Inr [model_dump_json completion])"

section \<open>Sample data\<close>






definition sample_config :: config where
  "sample_config =
     \<lparr>service_endpoint = ''https://example.search.windows.net'', index_name = ''reviews'',
      azureai_search_key = ''k'', openai_deployment_embedding = ''embedding'',
      openai_deployment_completion = ''chat''\<rparr>"

text \<open>A search service whose index holds no document yet: every query has no hit.\<close>

definition empty_index_search :: "search_request \<Rightarrow> string + search_result list" where
  "empty_index_search request = Inr []"

text \<open>A search service that answers every query with the error 429.\<close>

definition throttled_search :: "search_request \<Rightarrow> string + search_result list" where
  "throttled_search request = Inl ''429''"

text \<open>A completion service that fails on every request.\<close>

definition failing_create :: "completion_request \<Rightarrow> string + string" where
  "failing_create request = Inl ''APIError''"

section \<open>Properties of the ingestion\<close>
















section \<open>Properties of the query cells\<close>

text \<open>
  C8, as the specification states it, fails: with an index that returns no hit the cell
  "Perform queries" raises nothing. It ends normally and has printed no line.
\<close>

theorem no_results_error_counterexample:
  "empty_index_search (query_request ''Cat food'') = Inr []
   \<and> perform_queries empty_index_search ''Cat food'' = Inr []
   \<and> \<not> isl (perform_queries empty_index_search ''Cat food'')"
  by (simp add: perform_queries_def empty_index_search_def)

text \<open>
  C8, amended. An empty result set is not an error: the cell "Perform queries" then ends
  normally with no output. Each of the two cells fails exactly when its service call
  fails, and the failure that reaches the caller is the exception of that call itself,
  unchanged: it is neither caught nor replaced by another one.
\<close>

theorem query_errors_propagate:
  "(search (query_request user_query) = Inr [] \<longrightarrow> perform_queries search user_query = Inr [])
   \<and> (perform_queries search user_query = Inl e \<longleftrightarrow> search (query_request user_query) = Inl e)
   \<and> (generate_response create model_dump_json cfg user_query = Inl e'
        \<longleftrightarrow> create (chat_request cfg user_query) = Inl e')"
proof (intro conjI impI)
  assume "search (query_request user_query) = Inr []"
  then show "perform_queries search user_query = Inr []"
    by (simp add: perform_queries_def)
next
  show "perform_queries search user_query = Inl e \<longleftrightarrow> search (query_request user_query) = Inl e"
    by (cases "search (query_request user_query)") (simp_all add: perform_queries_def)
next
  show "generate_response create model_dump_json cfg user_query = Inl e'
      \<longleftrightarrow> create (chat_request cfg user_query) = Inl e'"
    by (cases "create (chat_request cfg user_query)") (simp_all add: generate_response_def)
qed

theorem query_errors_propagate_witness:
  "empty_index_search (query_request ''Cat food'') = Inr []
   \<and> perform_queries empty_index_search ''Cat food'' = Inr []
   \<and> throttled_search (query_request ''Cat food'') = Inl ''429''
   \<and> perform_queries throttled_search ''Cat food'' = Inl ''429''
   \<and> failing_create (chat_request sample_config ''Cat food'') = Inl ''APIError''
   \<and> generate_response failing_create id sample_config ''Cat food'' = Inl ''APIError''"
proof -
  have empty: "empty_index_search (query_request ''Cat food'') = Inr []"
    by (simp add: empty_index_search_def)
  have throttled: "throttled_search (query_request ''Cat food'') = Inl ''429''"
    by (simp add: throttled_search_def)
  have failing: "failing_create (chat_request sample_config ''Cat food'') = Inl ''APIError''"
    by (simp add: failing_create_def)
  from empty throttled failing
    query_errors_propagate [where search = empty_index_search and user_query = "''Cat food''"
      and create = failing_create and model_dump_json = id and cfg = sample_config
      and e = "''429''" and e' = "''APIError''"]
    query_errors_propagate [where search = throttled_search and user_query = "''Cat food''"
      and create = failing_create and model_dump_json = id and cfg = sample_config
      and e = "''429''" and e' = "''APIError''"]
  show ?thesis
    by simp
qed

end
